theory Spec2Isabelle
  imports Main
begin

section \<open>JavaScript strings and values\<close>

text \<open>
  A JavaScript string is modelled as a \<open>string\<close>: one \<open>char\<close> per UTF-16 code unit,
  for the code units below 256. A field that may be \<open>undefined\<close> or \<open>null\<close> is an
  \<open>option\<close>, with \<open>None\<close> for the absent value.
\<close>

definition is_ws :: "char \<Rightarrow> bool" where
  \<comment> \<open>what the regular expression class \<open>\\s\<close> and \<open>String.prototype.trim\<close> treat as
      white space: TAB, LF, VT, FF, CR, SPACE, NBSP\<close>
  "is_ws c = (c \<in> set [CHR 0x09, CHR 0x0A, CHR 0x0B, CHR 0x0C, CHR 0x0D, CHR 0x20, CHR 0xA0])"

definition is_lt :: "char \<Rightarrow> bool" where
  \<comment> \<open>the line terminators, which the regular expression dot does not match\<close>
  "is_lt c = (c \<in> set [CHR 0x0A, CHR 0x0D])"

definition trim :: "string \<Rightarrow> string" where
  "trim s = rev (dropWhile is_ws (rev (dropWhile is_ws s)))"

fun split_on :: "char \<Rightarrow> string \<Rightarrow> string list" where
  \<comment> \<open>\<open>s.split(d)\<close> for a separator of one character: never an empty list\<close>
  "split_on d [] = [[]]"
| "split_on d (c # cs) =
     (if c = d then [] # split_on d cs
      else (case split_on d cs of
              [] \<Rightarrow> [[c]]
            | x # xs \<Rightarrow> (c # x) # xs))"

definition js_or :: "string option \<Rightarrow> string \<Rightarrow> string" where
  \<comment> \<open>\<open>v || d\<close> on a string that may be absent: \<open>undefined\<close>, \<open>null\<close> and the empty
      string are falsy\<close>
  "js_or v d = (case v of None \<Rightarrow> d | Some s \<Rightarrow> if s = [] then d else s)"

section \<open>config.js\<close>

definition STATUS_TODO :: string where "STATUS_TODO = ''todo''"
definition STATUS_IN_PROGRESS :: string where "STATUS_IN_PROGRESS = ''in-progress''"
definition STATUS_DONE :: string where "STATUS_DONE = ''done''"

definition PRIORITIES :: "string list" where
  "PRIORITIES = [''low'', ''medium'', ''high'']"

definition DEFAULT_TAGS :: "string list" where
  "DEFAULT_TAGS = [''kloddin'', ''todo'']"

definition task_statuses :: "string list" where
  \<comment> \<open>the three statuses of \<open>CONFIG.STATUSES\<close> and the literal \<open>'deleted'\<close> that kanban.js
      tests for\<close>
  "task_statuses = [STATUS_TODO, STATUS_IN_PROGRESS, STATUS_DONE, ''deleted'']"

section \<open>api.js: the content codec\<close>

text \<open>The object handed to \<open>createTodo\<close>, \<open>updateTodo\<close> and \<open>buildContent\<close>.\<close>

record todo_data =
  t_title :: "string option"
  t_summary :: "string option"
  t_status :: "string option"
  t_priority :: "string option"
  t_sort :: "int option"
  t_content :: "string option"
  t_tags :: "string list option"

text \<open>
  The object \<open>parseContent\<close> returns. Its literal has the keys \<open>status\<close>, \<open>priority\<close> and
  \<open>body\<close>; \<open>sort\<close> is a key that \<open>handleDrop\<close> assigns later and that every reader takes
  through \<open>parsed.sort || 0\<close>, so a read of it before that is \<open>undefined\<close>, here \<open>None\<close>.
\<close>

record parsed =
  p_status :: string
  p_priority :: string
  p_sort :: "int option"
  p_body :: string

definition buildContent :: "todo_data \<Rightarrow> string" where
  "buildContent todo =
     ''---'' @ ''\<newline>'' @
     ''status: '' @ js_or (t_status todo) STATUS_TODO @ ''\<newline>'' @
     ''priority: '' @ js_or (t_priority todo) ''medium'' @ ''\<newline>'' @
     ''---'' @
     ''\<newline>\<newline>'' @ js_or (t_content todo) ''''"

fun split_at_marker :: "string \<Rightarrow> (string \<times> string) option" where
  \<comment> \<open>the lazy group \<open>([\\s\\S]*?)\<close> followed by \<open>\\n---\<close>: the text before the first
      occurrence of a line feed and three dashes, and the text after it\<close>
  "split_at_marker [] = None"
| "split_at_marker (c # cs) =
     (if take 4 (c # cs) = ''\<newline>---'' then Some ([], drop 4 (c # cs))
      else map_option (\<lambda>(a, b). (c # a, b)) (split_at_marker cs))"

definition frontmatterMatch :: "string \<Rightarrow> (string \<times> string) option" where
  \<comment> \<open>\<open>content.match(/^---\\n([\\s\\S]*?)\\n---\\n?([\\s\\S]*)$/)\<close>: groups 1 and 2\<close>
  "frontmatterMatch content =
     (if take 4 content = ''---\<newline>'' then
        (case split_at_marker (drop 4 content) of
           None \<Rightarrow> None
         | Some (fm, rest) \<Rightarrow>
             Some (fm, case rest of [] \<Rightarrow> [] | c # r \<Rightarrow> if c = CHR 0x0A then r else c # r))
      else None)"

definition dot_plus :: "string \<Rightarrow> string option" where
  \<comment> \<open>the greedy group \<open>(.+)\<close> at the head of a string: the longest run without a line
      terminator, which must not be empty\<close>
  "dot_plus s =
     (let c = takeWhile (\<lambda>x. \<not> is_lt x) s in if c = [] then None else Some c)"

fun ws_backtrack :: "nat \<Rightarrow> string \<Rightarrow> string option" where
  \<comment> \<open>\<open>\\s*(.+)\<close> with \<open>\\s*\<close> taking \<open>k\<close> characters first and one fewer on each failure\<close>
  "ws_backtrack 0 s = dot_plus s"
| "ws_backtrack (Suc k) s =
     (case dot_plus (drop (Suc k) s) of
        Some c \<Rightarrow> Some c
      | None \<Rightarrow> ws_backtrack k s)"

definition after_key :: "string \<Rightarrow> string option" where
  \<comment> \<open>\<open>\\s*(.+)\<close> at the head of a string: the greedy \<open>\\s*\<close> starts from the whole run of
      white space\<close>
  "after_key s = ws_backtrack (length (takeWhile is_ws s)) s"

fun key_search :: "string \<Rightarrow> string \<Rightarrow> string option" where
  \<comment> \<open>\<open>s.match(/key\\s*(.+)/)\<close> without the \<open>^\<close> anchor: the leftmost position where the whole
      pattern matches; the result is group 1\<close>
  "key_search key [] = None"
| "key_search key (c # cs) =
     (if take (length key) (c # cs) = key then
        (case after_key (drop (length key) (c # cs)) of
           Some v \<Rightarrow> Some v
         | None \<Rightarrow> key_search key cs)
      else key_search key cs)"

definition parseContent :: "string option \<Rightarrow> parsed" where
  "parseContent content =
     (let result = \<lparr>p_status = STATUS_TODO, p_priority = ''medium'', p_sort = None, p_body = ''''\<rparr>
      in case content of
           None \<Rightarrow> result
         | Some c \<Rightarrow>
             if c = [] then result
             else (case frontmatterMatch c of
                     Some (frontmatter, rest) \<Rightarrow>
                       (let r1 = result\<lparr>p_body := trim rest\<rparr>;
                            r2 = (case key_search ''status:'' frontmatter of
                                    Some v \<Rightarrow> r1\<lparr>p_status := trim v\<rparr>
                                  | None \<Rightarrow> r1)
                        in case key_search ''priority:'' frontmatter of
                             Some v \<Rightarrow> r2\<lparr>p_priority := trim v\<rparr>
                           | None \<Rightarrow> r2)
                   | None \<Rightarrow> result\<lparr>p_body := c\<rparr>))"

definition sort_or_zero :: "int option \<Rightarrow> int" where
  \<comment> \<open>\<open>parsed.sort || 0\<close>\<close>
  "sort_or_zero k = (case k of None \<Rightarrow> 0 | Some n \<Rightarrow> n)"

definition spec_header_delimited :: "string \<Rightarrow> bool" where
  \<comment> \<open>the specification's wording, not the code: the header is delimited by a literal
      start and end marker pair on dedicated lines, that is, the first line is \<open>---\<close> and a
      later line is \<open>---\<close>\<close>
  "spec_header_delimited txt =
     (case split_on (CHR 0x0A) txt of
        [] \<Rightarrow> False
      | first # others \<Rightarrow> first = ''---'' \<and> ''---'' \<in> set others)"

section \<open>api.js: requests to the remote store\<close>

text \<open>
  \<open>CONFIG.API_TOKEN\<close>, \<open>CONFIG.WORKSPACE_ID\<close> and \<open>CONFIG.FRAGMENT_TYPE_ID\<close> are loaded
  when the page starts; \<open>CONFIG.API_BASE_URL\<close> is the constant \<open>'/api'\<close>.
\<close>

record config =
  API_TOKEN :: string
  WORKSPACE_ID :: string
  FRAGMENT_TYPE_ID :: string

definition API_BASE_URL :: string where "API_BASE_URL = ''/api''"

text \<open>A fragment as the remote store returns it: an element of \<open>this.todos\<close>.\<close>

record fragment =
  f_id :: string
  f_title :: string
  f_summary :: "string option"
  f_content :: "string option"
  f_tags :: "string list option"

datatype http_method = GET | POST | PATCH | DELETE

text \<open>The JSON body of a request; \<open>JSON.stringify\<close> leaves out an \<open>undefined\<close> field.\<close>

record request_body =
  b_workspaceId :: "string option"
  b_fragmentTypeId :: "string option"
  b_title :: "string option"
  b_summary :: string
  b_content :: string
  b_tags :: "string list"

record api_request =
  q_method :: http_method
  q_url :: string
  q_bearer :: string
  q_body :: "request_body option"

text \<open>
  What \<open>request\<close> gives its caller: the error it throws (a response that is not ok, or a
  failed fetch), with its message, or the JSON of the response, of which only the
  \<open>fragments\<close> field is ever read (\<open>data.fragments || []\<close>).
\<close>

datatype api_response = ApiError string | ApiOk "fragment list"

datatype tags_arg = TagsAbsent | TagsString string | TagsArray "string list"

definition lower_char :: "char \<Rightarrow> char" where
  \<comment> \<open>\<open>toLowerCase\<close> on a code unit below 256\<close>
  "lower_char c =
     (let n = (of_char c :: nat)
      in if (65 \<le> n \<and> n \<le> 90) \<or> (192 \<le> n \<and> n \<le> 222 \<and> n \<noteq> 215)
         then char_of (n + 32) else c)"

definition dedupe :: "string list \<Rightarrow> string list" where
  \<comment> \<open>\<open>Array.from(new Set(xs))\<close>: the first occurrence of each element, in order\<close>
  "dedupe xs = rev (remdups (rev xs))"

definition buildTags :: "tags_arg \<Rightarrow> string list" where
  "buildTags tags =
     (let tagArray =
        (case tags of
           TagsString s \<Rightarrow>
             filter (\<lambda>t. t \<noteq> []) (map (\<lambda>t. map lower_char (trim t)) (split_on (CHR '','') s))
         | TagsArray ts \<Rightarrow> filter (\<lambda>t. t \<noteq> []) (map (\<lambda>t. map lower_char (trim t)) ts)
         | TagsAbsent \<Rightarrow> [])
      in dedupe (DEFAULT_TAGS @ tagArray))"

definition tags_of :: "string list option \<Rightarrow> tags_arg" where
  "tags_of ts = (case ts of None \<Rightarrow> TagsAbsent | Some xs \<Rightarrow> TagsArray xs)"

definition request :: "config \<Rightarrow> string \<Rightarrow> http_method \<Rightarrow> request_body option \<Rightarrow> api_request" where
  "request cfg endpoint method body =
     \<lparr>q_method = method, q_url = API_BASE_URL @ endpoint, q_bearer = API_TOKEN cfg,
      q_body = body\<rparr>"

definition getTodos :: "config \<Rightarrow> api_request" where
  "getTodos cfg =
     request cfg (''/memory-fragments?workspaceId='' @ WORKSPACE_ID cfg
                  @ ''&fragmentTypeId='' @ FRAGMENT_TYPE_ID cfg @ ''&limit=100'') GET None"

definition createTodo :: "config \<Rightarrow> todo_data \<Rightarrow> api_request" where
  "createTodo cfg todo =
     request cfg ''/memory-fragments'' POST
       (Some \<lparr>b_workspaceId = Some (WORKSPACE_ID cfg),
              b_fragmentTypeId = Some (FRAGMENT_TYPE_ID cfg),
              b_title = t_title todo,
              b_summary = js_or (t_summary todo) '''',
              b_content = buildContent todo,
              b_tags = buildTags (tags_of (t_tags todo))\<rparr>)"

definition updateTodo :: "config \<Rightarrow> string \<Rightarrow> todo_data \<Rightarrow> api_request" where
  "updateTodo cfg ident todo =
     request cfg (''/memory-fragments/'' @ ident) PATCH
       (Some \<lparr>b_workspaceId = None,
              b_fragmentTypeId = None,
              b_title = t_title todo,
              b_summary = js_or (t_summary todo) '''',
              b_content = buildContent todo,
              b_tags = buildTags (tags_of (t_tags todo))\<rparr>)"

definition deleteTodo :: "config \<Rightarrow> string \<Rightarrow> api_request" where
  \<comment> \<open>\<open>deleteTodo(id)\<close> has one parameter: the fields that kanban.js passes as a second
      argument are not read\<close>
  "deleteTodo cfg ident = request cfg (''/memory-fragments/'' @ ident) DELETE None"

section \<open>The token endpoint\<close>

record tokens =
  access_token :: "string option"
  refresh_token :: "string option"
  expires_in :: "int option"

datatype token_request =
    AuthorizationCode string string string string
      \<comment> \<open>client id, code, redirect URI, code verifier\<close>
  | RefreshGrant string string
      \<comment> \<open>client id, refresh token\<close>

datatype token_response =
    FetchFailed
      \<comment> \<open>\<open>fetch\<close> rejects\<close>
  | NotOk string
      \<comment> \<open>\<open>res.ok\<close> is false; the text of the response\<close>
  | BadJson
      \<comment> \<open>\<open>res.json()\<close> rejects, or its value has no properties to read\<close>
  | TokenOk tokens

text \<open>
  The two services the page talks to, each a step function on a state \<open>'r\<close> that the page
  does not see: the remote store behind \<open>/api\<close> and the identity provider behind
  \<open>/auth/token\<close>.
\<close>

record 'r services =
  api :: "'r \<Rightarrow> api_request \<Rightarrow> api_response \<times> 'r"
  idp :: "'r \<Rightarrow> token_request \<Rightarrow> token_response \<times> 'r"

section \<open>kanban.js: the state of the page\<close>

record card =
  c_todo :: fragment
  c_parsed :: parsed

datatype js_error = Error string | TypeError

record task_row =
  tr_id :: string
  tr_title :: string
  tr_summary :: "string option"
  tr_status :: string
  tr_priority :: string
  tr_content :: "string option"
  tr_tags :: "string list"

datatype tool_result =
    ListResult "task_row list"
  | TaskResult task_row
  | Success string
      \<comment> \<open>\<open>{ success: true, message }\<close>\<close>
  | ErrorResult js_error
      \<comment> \<open>\<open>{ error: err.message }\<close>\<close>

datatype digest_line =
    Preamble
      \<comment> \<open>the two fixed sentences and the empty line after them\<close>
  | Totals nat nat nat nat
      \<comment> \<open>\<open>Current board: N tasks total\<close>, then the sizes of To Do, In Progress and Done\<close>
  | Blank
  | Heading string nat
      \<comment> \<open>\<open>## status (n)\<close>\<close>
  | Item string string string "string list"
      \<comment> \<open>priority, title, id and the tags that are not default tags\<close>

datatype embed_msg =
    AUTH string
  | REGISTER_TOOLS "string list"
      \<comment> \<open>the names of the tool definitions\<close>
  | ADD_CONTEXT "string option" "digest_line list"
      \<comment> \<open>the workspace item, when there is one, and the text item\<close>
  | TOOL_RESPONSE string tool_result
      \<comment> \<open>request id and result\<close>

record 'r app =
  cfg :: config
  todos :: "fragment list"
  draggedCardData :: "card option"
  accessToken :: "string option"
  refreshTokenMem :: "string option"
  refreshTimer :: "int option"
  stored_refresh_token :: "string option"
  stored_pkce_verifier :: "string option"
  url_code :: "string option"
  page_origin :: string
  iframe_present :: bool
  outbox :: "embed_msg list"
  api_log :: "api_request list"
  idp_log :: "token_request list"
  toasts :: "(string \<times> string) list"
  remote :: 'r

text \<open>
  The fields of \<open>app\<close>: \<open>todos\<close> is the task cache \<open>this.todos\<close>; \<open>draggedCardData\<close> is the
  card object of the drag in progress; \<open>accessToken\<close>, \<open>refreshTokenMem\<close> and
  \<open>refreshTimer\<close> (the delay of the pending timer, in milliseconds) are the token state of
  \<open>UsableAuth\<close>; \<open>stored_refresh_token\<close> is the local storage item
  \<open>usable_refresh_token\<close>, \<open>stored_pkce_verifier\<close> the session storage item
  \<open>usable_pkce_verifier\<close>, \<open>url_code\<close> the \<open>code\<close> parameter of the page's URL;
  \<open>iframe_present\<close> says whether the document has the chat iframe with a content window.
  \<open>outbox\<close>, \<open>api_log\<close>, \<open>idp_log\<close> and \<open>toasts\<close> record, in order, the messages posted to
  the iframe, the requests sent to the two services and the toasts shown. A handler is
  modelled from its call to its return, without the interleaving of other handlers at its
  \<open>await\<close>s. The elements of the document are not part of the state: what a handler reads
  from them is an argument of its model.
\<close>

definition toast :: "string \<Rightarrow> string \<Rightarrow> 'r app \<Rightarrow> 'r app" where
  "toast message kind st = st\<lparr>toasts := toasts st @ [(message, kind)]\<rparr>"

definition call_api :: "'r services \<Rightarrow> api_request \<Rightarrow> 'r app \<Rightarrow> api_response \<times> 'r app" where
  "call_api svc req st =
     (case api svc (remote st) req of
        (resp, r) \<Rightarrow> (resp, st\<lparr>api_log := api_log st @ [req], remote := r\<rparr>))"

definition call_idp :: "'r services \<Rightarrow> token_request \<Rightarrow> 'r app \<Rightarrow> token_response \<times> 'r app" where
  "call_idp svc req st =
     (case idp svc (remote st) req of
        (resp, r) \<Rightarrow> (resp, st\<lparr>idp_log := idp_log st @ [req], remote := r\<rparr>))"

section \<open>kanban.js: rendering\<close>

definition with_parsed :: "fragment \<Rightarrow> card" where
  \<comment> \<open>\<open>{ ...todo, parsed: UsableAPI.parseContent(todo.content) }\<close>\<close>
  "with_parsed t = \<lparr>c_todo = t, c_parsed = parseContent (f_content t)\<rparr>"

definition object_prototype_keys :: "string list" where
  \<comment> \<open>the keys every object literal inherits: \<open>grouped[key]\<close> is truthy for them and is
      not an array\<close>
  "object_prototype_keys =
     [''constructor'', ''hasOwnProperty'', ''isPrototypeOf'', ''propertyIsEnumerable'',
      ''toLocaleString'', ''toString'', ''valueOf'', ''__proto__'', ''__defineGetter__'',
      ''__defineSetter__'', ''__lookupGetter__'', ''__lookupSetter__'']"

definition empty_groups :: "(string \<times> card list) list" where
  "empty_groups = [(STATUS_TODO, []), (STATUS_IN_PROGRESS, []), (STATUS_DONE, [])]"

definition push_card :: "string \<Rightarrow> card \<Rightarrow> (string \<times> card list) list \<Rightarrow> (string \<times> card list) list" where
  \<comment> \<open>\<open>grouped[col].push(c)\<close>\<close>
  "push_card col c g = map (\<lambda>(k, cs). if k = col then (k, cs @ [c]) else (k, cs)) g"

fun group_todos :: "fragment list \<Rightarrow> (string \<times> card list) list \<Rightarrow> js_error + (string \<times> card list) list" where
  \<comment> \<open>the \<open>forEach\<close> of \<open>renderBoard\<close>: a status that is no column goes to the todo column,
      and \<open>push\<close> on an inherited key throws\<close>
  "group_todos [] g = Inr g"
| "group_todos (todo # rest) g =
     (let parsed = parseContent (f_content todo);
          status = js_or (Some (p_status parsed)) STATUS_TODO
      in if status = ''deleted'' then group_todos rest g
         else if status \<in> set (map fst empty_groups) then
           group_todos rest (push_card status \<lparr>c_todo = todo, c_parsed = parsed\<rparr> g)
         else if status \<in> set object_prototype_keys then Inl TypeError
         else group_todos rest (push_card STATUS_TODO \<lparr>c_todo = todo, c_parsed = parsed\<rparr> g))"

text \<open>
  What \<open>renderBoard\<close> writes into the document, which is taken to have the three drop zones
  and their count elements: the cards of each column in order, the count of each column,
  and the text of the total, kept as its number and its noun.
\<close>

record board_view =
  v_columns :: "(string \<times> card list) list"
  v_counts :: "(string \<times> nat) list"
  v_taskCount :: "nat \<times> string"

definition renderBoard :: "fragment list \<Rightarrow> js_error + board_view" where
  "renderBoard ts =
     (case group_todos ts empty_groups of
        Inl e \<Rightarrow> Inl e
      | Inr grouped \<Rightarrow>
          (let sorted = map (\<lambda>(status, cs).
                              (status, sort_key (\<lambda>c. sort_or_zero (p_sort (c_parsed c))) cs))
                            grouped
           in Inr \<lparr>v_columns = sorted,
                   v_counts = map (\<lambda>(status, cs). (status, length cs)) sorted,
                   v_taskCount = (length ts, if length ts \<noteq> 1 then ''tasks'' else ''task'')\<rparr>))"

definition visible_tags :: "string list option \<Rightarrow> string list" where
  \<comment> \<open>\<open>(t.tags || []).filter(tg => !CONFIG.DEFAULT_TAGS.includes(tg))\<close>\<close>
  "visible_tags ts =
     filter (\<lambda>tg. tg \<notin> set DEFAULT_TAGS) (case ts of None \<Rightarrow> [] | Some xs \<Rightarrow> xs)"

fun group_context :: "card list \<Rightarrow> (string \<times> card list) list \<Rightarrow> js_error + (string \<times> card list) list" where
  \<comment> \<open>the \<open>forEach\<close> of \<open>getBoardContext\<close>: a status that is no column is left out\<close>
  "group_context [] g = Inr g"
| "group_context (t # rest) g =
     (let status = p_status (c_parsed t)
      in if status \<in> set (map fst empty_groups) then group_context rest (push_card status t g)
         else if status \<in> set object_prototype_keys then Inl TypeError
         else group_context rest g)"

definition digest_item :: "card \<Rightarrow> digest_line" where
  "digest_item t =
     Item (js_or (Some (p_priority (c_parsed t))) ''medium'') (f_title (c_todo t))
          (f_id (c_todo t)) (visible_tags (f_tags (c_todo t)))"

definition getBoardContext :: "fragment list \<Rightarrow> js_error + digest_line list" where
  "getBoardContext ts =
     (let tasks = filter (\<lambda>t. p_status (c_parsed t) \<noteq> ''deleted'') (map with_parsed ts)
      in case group_context tasks empty_groups of
           Inl e \<Rightarrow> Inl e
         | Inr grouped \<Rightarrow>
             Inr ([Preamble,
                   Totals (length tasks)
                     (length (concat (map snd (filter (\<lambda>(k, cs). k = ''todo'') grouped))))
                     (length (concat (map snd (filter (\<lambda>(k, cs). k = ''in-progress'') grouped))))
                     (length (concat (map snd (filter (\<lambda>(k, cs). k = ''done'') grouped)))),
                   Blank]
                  @ concat (map (\<lambda>(status, items).
                                   if items = [] then []
                                   else Heading status (length items) # map digest_item items
                                        @ [Blank])
                                grouped)))"

section \<open>kanban.js: drag and drop\<close>

datatype child =
    CardEl string bool
      \<comment> \<open>a card, with its \<open>dataset.id\<close> and whether it has the class \<open>card--dragging\<close>\<close>
  | IndicatorEl
      \<comment> \<open>the drop indicator\<close>

fun is_still_card :: "child \<Rightarrow> bool" where
  \<comment> \<open>the selector \<open>.card:not(.card--dragging)\<close>\<close>
  "is_still_card (CardEl _ dragging) = (\<not> dragging)"
| "is_still_card IndicatorEl = False"

fun card_id :: "child \<Rightarrow> string" where
  "card_id (CardEl ident _) = ident"
| "card_id IndicatorEl = []"

definition getCardSort :: "fragment list \<Rightarrow> string \<Rightarrow> int" where
  "getCardSort ts ident =
     (case find (\<lambda>t. f_id t = ident) ts of
        Some todo \<Rightarrow> sort_or_zero (p_sort (parseContent (f_content todo)))
      | None \<Rightarrow> 0)"

definition calculateSortValue :: "fragment list \<Rightarrow> int \<Rightarrow> child list \<Rightarrow> nat \<Rightarrow> int" where
  \<comment> \<open>\<open>now\<close> is what \<open>Date.now()\<close> returns during the call, \<open>zone\<close> the children of the drop
      zone\<close>
  "calculateSortValue ts now zone index =
     (let cards = filter is_still_card zone;
          prevSort = (if 1 \<le> index \<and> index - 1 < length cards
                      then getCardSort ts (card_id (cards ! (index - 1))) else 0);
          nextSort = (if index < length cards
                      then getCardSort ts (card_id (cards ! index)) else now)
      in (prevSort + nextSort) div 2)"

definition drop_index :: "child list \<Rightarrow> nat" where
  \<comment> \<open>the drop position of \<open>handleDrop\<close>: the still cards before the indicator, or the
      number of still cards when the zone has no indicator\<close>
  "drop_index zone =
     (if IndicatorEl \<in> set zone
      then length (filter is_still_card (takeWhile (\<lambda>c. c \<noteq> IndicatorEl) zone))
      else length (filter is_still_card zone))"

definition loadTodos :: "'r services \<Rightarrow> 'r app \<Rightarrow> 'r app" where
  \<comment> \<open>the \<open>catch\<close> also takes an error thrown by \<open>renderBoard\<close>, after the cache was
      replaced\<close>
  "loadTodos svc st =
     (case call_api svc (getTodos (cfg st)) st of
        (ApiError _, st1) \<Rightarrow> toast ''Failed to load tasks'' ''error'' st1
      | (ApiOk fragments, st1) \<Rightarrow>
          (let st2 = st1\<lparr>todos := fragments\<rparr>
           in case renderBoard fragments of
                Inl _ \<Rightarrow> toast ''Failed to load tasks'' ''error'' st2
              | Inr _ \<Rightarrow> toast ''Tasks loaded'' ''success'' st2))"

definition handleDrop :: "'r services \<Rightarrow> int \<Rightarrow> (string \<times> child list) option \<Rightarrow> 'r app \<Rightarrow> 'r app" where
  \<comment> \<open>\<open>zone\<close> is the drop zone the event target lies in, if any: its \<open>dataset.dropzone\<close> and
      its children\<close>
  "handleDrop svc now zone st =
     (case zone of
        None \<Rightarrow> st
      | Some (newStatus, children) \<Rightarrow>
          (case draggedCardData st of
             None \<Rightarrow> st
           | Some dragged \<Rightarrow>
               (let oldStatus = p_status (c_parsed dragged);
                    dropIndex = drop_index children;
                    newSort = calculateSortValue (todos st) now children dropIndex;
                    statusChanged = (newStatus \<noteq> oldStatus);
                    sortChanged = (Some newSort \<noteq> p_sort (c_parsed dragged))
                in if \<not> statusChanged \<and> \<not> sortChanged then st
                   else
                     (case call_api svc
                             (updateTodo (cfg st) (f_id (c_todo dragged))
                                \<lparr>t_title = Some (f_title (c_todo dragged)),
                                 t_summary = f_summary (c_todo dragged),
                                 t_status = Some newStatus,
                                 t_priority = Some (p_priority (c_parsed dragged)),
                                 t_sort = Some newSort,
                                 t_content = Some (p_body (c_parsed dragged)),
                                 t_tags = f_tags (c_todo dragged)\<rparr>) st of
                        (ApiOk _, st1) \<Rightarrow>
                          toast ''Task moved'' ''success''
                            (st1\<lparr>draggedCardData :=
                                   Some (dragged\<lparr>c_parsed :=
                                     (c_parsed dragged)\<lparr>p_status := newStatus,
                                                         p_sort := Some newSort\<rparr>\<rparr>)\<rparr>)
                      | (ApiError _, st1) \<Rightarrow>
                          loadTodos svc (toast ''Failed to move task'' ''error'' st1)))))"

section \<open>kanban.js: the bridge to the chat iframe\<close>

definition EMBED_ORIGIN :: string where "EMBED_ORIGIN = ''https://chat.usable.dev''"

definition tool_names :: "string list" where
  \<comment> \<open>the names in \<open>getChatToolDefinitions\<close>\<close>
  "tool_names =
     [''list_tasks'', ''get_task'', ''create_task'', ''update_task'', ''move_task'',
      ''delete_task'']"

definition postToEmbed :: "embed_msg \<Rightarrow> 'r app \<Rightarrow> 'r app" where
  "postToEmbed message st =
     (if iframe_present st then st\<lparr>outbox := outbox st @ [message]\<rparr> else st)"

definition sendAuthToEmbed :: "'r app \<Rightarrow> 'r app" where
  "sendAuthToEmbed st =
     (case accessToken st of
        None \<Rightarrow> st
      | Some token \<Rightarrow> if token = [] then st else postToEmbed (AUTH token) st)"

definition registerChatTools :: "'r app \<Rightarrow> 'r app" where
  \<comment> \<open>when \<open>getBoardContext\<close> throws, the tools are registered and no context is posted\<close>
  "registerChatTools st =
     (let st1 = postToEmbed (REGISTER_TOOLS tool_names) st
      in case getBoardContext (todos st1) of
           Inl _ \<Rightarrow> st1
         | Inr text \<Rightarrow> postToEmbed (ADD_CONTEXT (Some (WORKSPACE_ID (cfg st1))) text) st1)"

definition sendBoardContext :: "'r app \<Rightarrow> 'r app" where
  "sendBoardContext st =
     (case getBoardContext (todos st) of
        Inl _ \<Rightarrow> st
      | Inr text \<Rightarrow> postToEmbed (ADD_CONTEXT None text) st)"

record tool_input =
  i_id :: "string option"
  i_title :: "string option"
  i_summary :: "string option"
  i_status :: "string option"
  i_priority :: "string option"
  i_content :: "string option"
  i_tags :: "string list option"

record payload =
  pl_requestId :: string
  pl_tool :: string
  pl_input :: "tool_input option"

definition js_str :: "string option \<Rightarrow> string" where
  \<comment> \<open>a value that may be \<open>undefined\<close>, inside a template literal\<close>
  "js_str v = (case v of None \<Rightarrow> ''undefined'' | Some s \<Rightarrow> s)"

definition or_opt :: "string option \<Rightarrow> string option \<Rightarrow> string option" where
  \<comment> \<open>\<open>a || b\<close> where \<open>b\<close> may be absent too\<close>
  "or_opt a b = (case a of None \<Rightarrow> b | Some s \<Rightarrow> if s = [] then b else Some s)"

definition find_todo :: "string option \<Rightarrow> fragment list \<Rightarrow> fragment option" where
  \<comment> \<open>\<open>this.todos.find(t => t.id === input.id)\<close>\<close>
  "find_todo ident ts =
     (case ident of None \<Rightarrow> None | Some i \<Rightarrow> find (\<lambda>t. f_id t = i) ts)"

definition handleDelete :: "'r services \<Rightarrow> string option \<Rightarrow> bool \<Rightarrow> 'r app \<Rightarrow> 'r app" where
  \<comment> \<open>the delete button of the task modal: \<open>ident\<close> is the value of the \<open>task-id\<close> field and
      \<open>confirmed\<close> the answer to the confirmation dialog\<close>
  "handleDelete svc ident confirmed st =
     (case or_opt ident None of
        None \<Rightarrow> st
      | Some i \<Rightarrow>
          (case find (\<lambda>t. f_id t = i) (todos st) of
             None \<Rightarrow> st
           | Some todo \<Rightarrow>
               if \<not> confirmed then st
               else (case call_api svc (deleteTodo (cfg st) i) st of
                       (ApiOk _, st1) \<Rightarrow> loadTodos svc (toast ''Task deleted'' ''success'' st1)
                     | (ApiError _, st1) \<Rightarrow> toast ''Failed to delete task'' ''error'' st1)))"

definition list_row :: "card \<Rightarrow> task_row" where
  "list_row t =
     \<lparr>tr_id = f_id (c_todo t), tr_title = f_title (c_todo t),
      tr_summary = f_summary (c_todo t), tr_status = p_status (c_parsed t),
      tr_priority = p_priority (c_parsed t), tr_content = None,
      tr_tags = visible_tags (f_tags (c_todo t))\<rparr>"

definition detail_row :: "fragment \<Rightarrow> task_row" where
  "detail_row todo =
     (let parsed = parseContent (f_content todo)
      in \<lparr>tr_id = f_id todo, tr_title = f_title todo, tr_summary = f_summary todo,
          tr_status = p_status parsed, tr_priority = p_priority parsed,
          tr_content = Some (p_body parsed), tr_tags = visible_tags (f_tags todo)\<rparr>)"

definition not_found :: "string option \<Rightarrow> js_error" where
  "not_found ident = Error (''Task not found: '' @ js_str ident)"

definition after_write :: "'r services \<Rightarrow> string \<Rightarrow> string \<Rightarrow> api_response \<times> 'r app \<Rightarrow> (js_error + tool_result) \<times> 'r app" where
  \<comment> \<open>what follows the request of a writing tool: its error is thrown on, otherwise the
      tasks are loaded again, a toast is shown and the result is a success message\<close>
  "after_write svc toast_text message r =
     (case r of
        (ApiError m, st1) \<Rightarrow> (Inl (Error m), st1)
      | (ApiOk _, st1) \<Rightarrow>
          (Inr (Success message), toast toast_text ''success'' (loadTodos svc st1)))"

definition run_tool :: "'r services \<Rightarrow> string \<Rightarrow> tool_input option \<Rightarrow> 'r app \<Rightarrow> (js_error + tool_result) \<times> 'r app" where
  \<comment> \<open>the \<open>switch\<close> inside the \<open>try\<close> of \<open>handleToolCall\<close>: \<open>Inl\<close> is the error thrown,
      \<open>Inr\<close> the result; reading a property of an absent \<open>input\<close> throws\<close>
  "run_tool svc tool input st =
     (if tool = ''list_tasks'' then
        (let tasks = filter (\<lambda>t. p_status (c_parsed t) \<noteq> ''deleted'') (map with_parsed (todos st));
             wanted = or_opt (case input of None \<Rightarrow> None | Some i \<Rightarrow> i_status i) None;
             filtered = (case wanted of
                           None \<Rightarrow> tasks
                         | Some s \<Rightarrow> filter (\<lambda>t. p_status (c_parsed t) = s) tasks)
         in (Inr (ListResult (map list_row filtered)), st))
      else if tool = ''get_task'' then
        (case input of
           None \<Rightarrow> (Inl TypeError, st)
         | Some i \<Rightarrow>
             (case find_todo (i_id i) (todos st) of
                None \<Rightarrow> (Inl (not_found (i_id i)), st)
              | Some todo \<Rightarrow> (Inr (TaskResult (detail_row todo)), st)))
      else if tool = ''create_task'' then
        (case input of
           None \<Rightarrow> (Inl TypeError, st)
         | Some i \<Rightarrow>
             after_write svc ''Task created by chat''
               (''Task \"'' @ js_str (i_title i) @ ''\" created'')
               (call_api svc
                  (createTodo (cfg st)
                     \<lparr>t_title = i_title i,
                      t_summary = or_opt (i_summary i) (i_title i),
                      t_status = Some (js_or (i_status i) STATUS_TODO),
                      t_priority = Some (js_or (i_priority i) ''medium''),
                      t_sort = None,
                      t_content = Some (js_or (i_content i) ''''),
                      t_tags = Some (case i_tags i of None \<Rightarrow> [] | Some ts \<Rightarrow> ts)\<rparr>) st))
      else if tool = ''update_task'' then
        (case input of
           None \<Rightarrow> (Inl TypeError, st)
         | Some i \<Rightarrow>
             (case find_todo (i_id i) (todos st) of
                None \<Rightarrow> (Inl (not_found (i_id i)), st)
              | Some existing \<Rightarrow>
                  (let existingParsed = parseContent (f_content existing)
                   in after_write svc ''Task updated by chat''
                        (''Task \"'' @ js_or (i_title i) (f_title existing) @ ''\" updated'')
                        (call_api svc
                           (updateTodo (cfg st) (js_str (i_id i))
                              \<lparr>t_title = Some (js_or (i_title i) (f_title existing)),
                               t_summary = or_opt (i_summary i) (f_summary existing),
                               t_status = Some (p_status existingParsed),
                               t_priority = Some (js_or (i_priority i) (p_priority existingParsed)),
                               t_sort = p_sort existingParsed,
                               t_content = (case i_content i of
                                              None \<Rightarrow> Some (p_body existingParsed)
                                            | Some c \<Rightarrow> Some c),
                               t_tags = (case i_tags i of
                                           None \<Rightarrow> f_tags existing
                                         | Some ts \<Rightarrow> Some ts)\<rparr>) st))))
      else if tool = ''move_task'' then
        (case input of
           None \<Rightarrow> (Inl TypeError, st)
         | Some i \<Rightarrow>
             (case find_todo (i_id i) (todos st) of
                None \<Rightarrow> (Inl (not_found (i_id i)), st)
              | Some toMove \<Rightarrow>
                  (let moveParsed = parseContent (f_content toMove)
                   in after_write svc (''Task moved to '' @ js_str (i_status i))
                        (''Task \"'' @ f_title toMove @ ''\" moved to '' @ js_str (i_status i))
                        (call_api svc
                           (updateTodo (cfg st) (js_str (i_id i))
                              \<lparr>t_title = Some (f_title toMove),
                               t_summary = f_summary toMove,
                               t_status = i_status i,
                               t_priority = Some (p_priority moveParsed),
                               t_sort = p_sort moveParsed,
                               t_content = Some (p_body moveParsed),
                               t_tags = f_tags toMove\<rparr>) st))))
      else if tool = ''delete_task'' then
        (case input of
           None \<Rightarrow> (Inl TypeError, st)
         | Some i \<Rightarrow>
             (case find_todo (i_id i) (todos st) of
                None \<Rightarrow> (Inl (not_found (i_id i)), st)
              | Some toDelete \<Rightarrow>
                  after_write svc ''Task deleted by chat''
                    (''Task \"'' @ f_title toDelete @ ''\" deleted'')
                    (call_api svc (deleteTodo (cfg st) (js_str (i_id i))) st)))
      else (Inl (Error (''Unknown tool: '' @ tool)), st))"

definition handleToolCall :: "'r services \<Rightarrow> payload \<Rightarrow> 'r app \<Rightarrow> 'r app" where
  "handleToolCall svc p st =
     (case run_tool svc (pl_tool p) (pl_input p) st of
        (Inr result, st1) \<Rightarrow> postToEmbed (TOOL_RESPONSE (pl_requestId p) result) st1
      | (Inl err, st1) \<Rightarrow> postToEmbed (TOOL_RESPONSE (pl_requestId p) (ErrorResult err)) st1)"

section \<open>The token lifecycle of UsableAuth\<close>

definition CLIENT_ID :: string where "CLIENT_ID = ''mcp_oauth_client''"

definition REDIRECT_URI :: "'r app \<Rightarrow> string" where
  "REDIRECT_URI st = page_origin st @ ''/callback''"

definition scheduleRefresh :: "int \<Rightarrow> 'r app \<Rightarrow> 'r app" where
  \<comment> \<open>a pending timer is cleared and a new one is set\<close>
  "scheduleRefresh expiresIn st =
     st\<lparr>refreshTimer := Some (max ((expiresIn - 30) * 1000) 10000)\<rparr>"

definition setTokens :: "tokens \<Rightarrow> 'r app \<Rightarrow> 'r app" where
  "setTokens tk st =
     (let st1 = st\<lparr>accessToken := access_token tk, refreshTokenMem := refresh_token tk\<rparr>;
          st2 = (case or_opt (refresh_token tk) None of
                   None \<Rightarrow> st1
                 | Some rt \<Rightarrow> st1\<lparr>stored_refresh_token := Some rt\<rparr>)
      in scheduleRefresh
           (case expires_in tk of None \<Rightarrow> 300 | Some n \<Rightarrow> if n = 0 then 300 else n) st2)"

definition handleCallback :: "'r services \<Rightarrow> 'r app \<Rightarrow> bool \<times> 'r app" where
  "handleCallback svc st =
     (case or_opt (url_code st) None of
        None \<Rightarrow> (False, st)
      | Some code \<Rightarrow>
          (case or_opt (stored_pkce_verifier st) None of
             None \<Rightarrow> (False, st)
           | Some verifier \<Rightarrow>
               (case call_idp svc
                       (AuthorizationCode CLIENT_ID code (REDIRECT_URI st) verifier) st of
                  (TokenOk tk, st1) \<Rightarrow>
                    (True, (setTokens tk st1)\<lparr>stored_pkce_verifier := None, url_code := None\<rparr>)
                | (_, st1) \<Rightarrow> (False, st1))))"

definition refreshToken :: "'r services \<Rightarrow> 'r app \<Rightarrow> string option \<times> 'r app" where
  "refreshToken svc st =
     (case or_opt (refreshTokenMem st) (stored_refresh_token st) of
        None \<Rightarrow> (None, st)
      | Some rt \<Rightarrow>
          if rt = [] then (None, st)
          else (case call_idp svc (RefreshGrant CLIENT_ID rt) st of
                  (NotOk _, st1) \<Rightarrow>
                    (None, st1\<lparr>accessToken := None, refreshTokenMem := None,
                               stored_refresh_token := None\<rparr>)
                | (TokenOk tk, st1) \<Rightarrow> (access_token tk, setTokens tk st1)
                | (_, st1) \<Rightarrow> (None, st1)))"

definition isAuthenticated :: "'r app \<Rightarrow> bool" where
  "isAuthenticated st = (or_opt (accessToken st) None \<noteq> None)"

section \<open>kanban.js: the message listener\<close>

record message =
  m_origin :: string
  m_type :: "string option"
  m_payload :: "payload option"

definition onMessage :: "'r services \<Rightarrow> message \<Rightarrow> 'r app \<Rightarrow> 'r app" where
  \<comment> \<open>the listener of \<open>bindEvents\<close>. Its four tests of \<open>e.data?.type\<close> exclude each other.
      \<open>handleToolCall\<close> takes its argument apart before its \<open>try\<close>: with no payload it
      throws there, and nothing is posted\<close>
  "onMessage svc e st =
     (if m_origin e \<noteq> EMBED_ORIGIN then st
      else if m_type e = Some ''READY'' then registerChatTools (sendAuthToEmbed st)
      else if m_type e = Some ''REQUEST_TOKEN_REFRESH'' then
        sendAuthToEmbed (snd (refreshToken svc st))
      else if m_type e = Some ''TOOL_CALL'' then
        (case m_payload e of
           None \<Rightarrow> st
         | Some p \<Rightarrow> handleToolCall svc p st)
      else st)"

section \<open>UsableAuth.getUserInfo\<close>

text \<open>
  A value that \<open>JSON.parse\<close> returns. An object is the list of its keys and values, each
  key once; a number is kept as an integer, since all that is asked of it is whether it is
  zero.
\<close>

datatype json =
    JNull
  | JBool bool
  | JNum int
  | JStr string
  | JArr "json list"
  | JObj "(string \<times> json) list"

datatype js_value =
    Undefined
  | Val json
  | Builtin
      \<comment> \<open>a function that a prototype provides\<close>

record user_info =
  u_name :: js_value
  u_email :: js_value
  u_sub :: js_value

fun truthy :: "js_value \<Rightarrow> bool" where
  "truthy Undefined = False"
| "truthy Builtin = True"
| "truthy (Val JNull) = False"
| "truthy (Val (JBool b)) = b"
| "truthy (Val (JNum n)) = (n \<noteq> 0)"
| "truthy (Val (JStr s)) = (s \<noteq> [])"
| "truthy (Val (JArr _)) = True"
| "truthy (Val (JObj _)) = True"

definition js_or_val :: "js_value \<Rightarrow> js_value \<Rightarrow> js_value" where
  "js_or_val a b = (if truthy a then a else b)"

fun get_prop :: "json \<Rightarrow> string \<Rightarrow> js_error + js_value" where
  \<comment> \<open>\<open>payload.key\<close> for the keys \<open>name\<close>, \<open>preferred_username\<close>, \<open>email\<close> and \<open>sub\<close>: an own
      property of an object, \<open>String.prototype.sub\<close> of a string, and a \<open>TypeError\<close> on
      \<open>null\<close>\<close>
  "get_prop JNull key = Inl TypeError"
| "get_prop (JObj kvs) key =
     Inr (case map_of kvs key of None \<Rightarrow> Undefined | Some v \<Rightarrow> Val v)"
| "get_prop (JStr s) key = Inr (if key = ''sub'' then Builtin else Undefined)"
| "get_prop _ key = Inr Undefined"

definition to_base64 :: "string \<Rightarrow> string" where
  \<comment> \<open>\<open>.replace(/-/g, '+').replace(/_/g, '/')\<close>\<close>
  "to_base64 s =
     map (\<lambda>c. if c = CHR ''_'' then CHR ''/'' else c)
         (map (\<lambda>c. if c = CHR ''-'' then CHR ''+'' else c) s)"

definition getUserInfo :: "(string \<Rightarrow> string option) \<Rightarrow> (string \<Rightarrow> json option) \<Rightarrow> 'r app \<Rightarrow> user_info option" where
  \<comment> \<open>\<open>atob\<close> and \<open>JSON.parse\<close> are the platform's: each is a parameter, with \<open>None\<close> where
      it throws. \<open>None\<close> as a result is \<open>null\<close>\<close>
  "getUserInfo atob json_parse st =
     (case or_opt (accessToken st) None of
        None \<Rightarrow> None
      | Some token \<Rightarrow>
          (let parts = split_on (CHR ''.'') token
           in if length parts \<noteq> 3 then None
              else (case atob (to_base64 (parts ! 1)) of
                      None \<Rightarrow> None
                    | Some decoded \<Rightarrow>
                        (case json_parse decoded of
                           None \<Rightarrow> None
                         | Some payload \<Rightarrow>
                             (case (get_prop payload ''name'',
                                    get_prop payload ''preferred_username'',
                                    get_prop payload ''email'',
                                    get_prop payload ''sub'') of
                                (Inr name, Inr username, Inr email, Inr sub) \<Rightarrow>
                                  Some \<lparr>u_name = js_or_val name
                                                   (js_or_val username (Val (JStr ''User''))),
                                        u_email = js_or_val email (Val (JStr '''')),
                                        u_sub = sub\<rparr>
                              | _ \<Rightarrow> None)))))"

section \<open>A remote store and an identity provider for the examples\<close>

text \<open>
  The remote store and the identity provider are services outside the repository. The
  examples below run the page against this store, which keeps the fragments it is sent,
  lists them on GET, and removes a fragment on DELETE, and against an identity provider
  that refuses every request.
\<close>

definition fragment_path :: string where
  "fragment_path = API_BASE_URL @ ''/memory-fragments/''"

definition store_api :: "fragment list \<Rightarrow> api_request \<Rightarrow> api_response \<times> fragment list" where
  "store_api store req =
     (let ident = drop (length fragment_path) (q_url req);
          known = (take (length fragment_path) (q_url req) = fragment_path
                   \<and> ident \<in> set (map f_id store))
      in case q_method req of
           GET \<Rightarrow> (ApiOk store, store)
         | POST \<Rightarrow>
             (case q_body req of
                None \<Rightarrow> (ApiError ''API Error: 400'', store)
              | Some b \<Rightarrow>
                  (ApiOk [],
                   store @ [\<lparr>f_id = concat (map f_id store) @ ''+'',
                             f_title = js_str (b_title b),
                             f_summary = Some (b_summary b),
                             f_content = Some (b_content b),
                             f_tags = Some (b_tags b)\<rparr>]))
         | PATCH \<Rightarrow>
             (case q_body req of
                None \<Rightarrow> (ApiError ''API Error: 400'', store)
              | Some b \<Rightarrow>
                  if known then
                    (ApiOk [],
                     map (\<lambda>f. if f_id f = ident
                               then f\<lparr>f_title := js_str (b_title b),
                                      f_summary := Some (b_summary b),
                                      f_content := Some (b_content b),
                                      f_tags := Some (b_tags b)\<rparr>
                               else f) store)
                  else (ApiError ''API Error: 404'', store))
         | DELETE \<Rightarrow>
             if known then (ApiOk [], filter (\<lambda>f. f_id f \<noteq> ident) store)
             else (ApiError ''API Error: 404'', store))"

definition demo_services :: "fragment list services" where
  "demo_services = \<lparr>api = store_api, idp = (\<lambda>r q. (NotOk ''invalid_grant'', r))\<rparr>"

definition demo_fragment :: "string \<Rightarrow> string \<Rightarrow> string \<Rightarrow> fragment" where
  "demo_fragment ident title status =
     \<lparr>f_id = ident, f_title = title, f_summary = None,
      f_content = Some (''---\<newline>status: '' @ status @ ''\<newline>priority: medium\<newline>---\<newline>\<newline>''),
      f_tags = Some [''kloddin'', ''todo'']\<rparr>"

definition demo_state :: "fragment list \<Rightarrow> fragment list app" where
  \<comment> \<open>the page after it has loaded the fragments of the store, with the chat iframe in
      the document and nobody logged in\<close>
  "demo_state store =
     \<lparr>cfg = \<lparr>API_TOKEN = ''token'', WORKSPACE_ID = ''w'', FRAGMENT_TYPE_ID = ''ft''\<rparr>,
      todos = store,
      draggedCardData = None,
      accessToken = None,
      refreshTokenMem = None,
      refreshTimer = None,
      stored_refresh_token = None,
      stored_pkce_verifier = None,
      url_code = None,
      page_origin = ''http://localhost:8888'',
      iframe_present = True,
      outbox = [],
      api_log = [],
      idp_log = [],
      toasts = [],
      remote = store\<rparr>"

definition granting_services :: "fragment list services" where
  \<comment> \<open>the same store, with an identity provider that grants every request\<close>
  "granting_services =
     \<lparr>api = store_api,
      idp = (\<lambda>r q. (TokenOk \<lparr>access_token = Some ''h.payload.s'',
                               refresh_token = Some ''rt'',
                               expires_in = Some 300\<rparr>, r))\<rparr>"

definition evil_message :: message where
  "evil_message =
     \<lparr>m_origin = ''https://evil.example'',
      m_type = Some ''TOOL_CALL'',
      m_payload = Some \<lparr>pl_requestId = ''r1'', pl_tool = ''delete_task'',
                        pl_input = Some \<lparr>i_id = Some ''a'', i_title = None, i_summary = None,
                                          i_status = None, i_priority = None,
                                          i_content = None, i_tags = None\<rparr>\<rparr>\<rparr>"

definition unknown_call :: payload where
  "unknown_call = \<lparr>pl_requestId = ''r7'', pl_tool = ''unknown_tool'', pl_input = None\<rparr>"

definition drag_state :: "int option \<Rightarrow> fragment list app" where
  \<comment> \<open>two tasks in the todo column, with the card of the first being dragged: \<open>k\<close> is the
      sort key of that card, absent on a card that \<open>renderBoard\<close> has just made and present
      once a drop has assigned it\<close>
  "drag_state k =
     (demo_state [demo_fragment ''a'' ''A'' ''todo'', demo_fragment ''b'' ''B'' ''todo''])
       \<lparr>draggedCardData :=
          Some \<lparr>c_todo = demo_fragment ''a'' ''A'' ''todo'',
                c_parsed = \<lparr>p_status = ''todo'', p_priority = ''medium'', p_sort = k,
                            p_body = []\<rparr>\<rparr>\<rparr>"

definition call_with_id :: "string \<Rightarrow> string \<Rightarrow> string \<Rightarrow> payload" where
  "call_with_id rid tool ident =
     \<lparr>pl_requestId = rid, pl_tool = tool,
      pl_input = Some \<lparr>i_id = Some ident, i_title = None, i_summary = None,
                        i_status = None, i_priority = None, i_content = None,
                        i_tags = None\<rparr>\<rparr>"

definition demo_atob :: "string \<Rightarrow> string option" where
  "demo_atob s = (if s = ''payload'' then Some ''{claims}'' else None)"

definition demo_json_parse :: "string \<Rightarrow> json option" where
  "demo_json_parse d =
     (if d = ''{claims}''
      then Some (JObj [(''preferred_username'', JStr ''ann''), (''sub'', JStr ''42'')])
      else None)"

section \<open>Properties of the content codec\<close>

lemma trim_ws_cons: "is_ws c \<Longrightarrow> trim (c # s) = trim s"
  by (simp add: trim_def)

lemma is_ws_lf: "is_ws (CHR 0x0A)"
  by (simp add: is_ws_def)

lemma split_at_marker_sound:
  "split_at_marker r = Some (a, b) \<Longrightarrow> r = a @ ''\<newline>---'' @ b"
proof (induction r arbitrary: a b)
  case Nil
  then show ?case by simp
next
  case (Cons c cs)
  show ?case
  proof (cases "take 4 (c # cs) = ''\<newline>---''")
    case True
    with Cons.prems have ab: "a = []" "b = drop 4 (c # cs)" by auto
    from True have "c # cs = ''\<newline>---'' @ drop 4 (c # cs)"
      by (metis append_take_drop_id)
    then show ?thesis unfolding ab by (simp only: append_Nil)
  next
    case False
    with Cons.prems obtain a' where "split_at_marker cs = Some (a', b)" "a = c # a'"
      by (auto split: option.splits)
    with Cons.IH show ?thesis by simp
  qed
qed

lemma frontmatterMatch_sound:
  assumes "frontmatterMatch c = Some (fm, rest)"
  shows "\<exists>tl. c = ''---\<newline>'' @ fm @ ''\<newline>---'' @ tl"
proof -
  from assms have h: "take 4 c = ''---\<newline>''"
    by (auto simp: frontmatterMatch_def split: if_splits)
  from assms h obtain b where "split_at_marker (drop 4 c) = Some (fm, b)"
    by (auto simp: frontmatterMatch_def split: option.splits)
  then have "drop 4 c = fm @ ''\<newline>---'' @ b" by (rule split_at_marker_sound)
  moreover have "c = take 4 c @ drop 4 c" by (simp only: append_take_drop_id)
  ultimately have "c = ''---\<newline>'' @ fm @ ''\<newline>---'' @ b" using h by metis
  then show ?thesis by blast
qed

lemma frontmatterMatch_none:
  assumes "\<not> (\<exists>fm tl. txt = ''---\<newline>'' @ fm @ ''\<newline>---'' @ tl)"
  shows "frontmatterMatch txt = None"
proof (cases "frontmatterMatch txt")
  case None
  then show ?thesis .
next
  case (Some q)
  obtain fm rest where "q = (fm, rest)" by (cases q)
  with Some frontmatterMatch_sound assms show ?thesis by blast
qed

lemma frontmatter_of_built:
  assumes "s \<in> set task_statuses" "p \<in> set PRIORITIES"
  shows "frontmatterMatch (buildContent \<lparr>t_title = ti, t_summary = su, t_status = Some s,
            t_priority = Some p, t_sort = k, t_content = Some b, t_tags = tg\<rparr>)
         = Some (''status: '' @ s @ ''\<newline>priority: '' @ p, CHR 0x0A # b)"
  using assms
  by (auto simp add: task_statuses_def PRIORITIES_def STATUS_TODO_def STATUS_IN_PROGRESS_def
      STATUS_DONE_def buildContent_def js_or_def frontmatterMatch_def)

lemma status_of_built:
  assumes "s \<in> set task_statuses" "p \<in> set PRIORITIES"
  shows "key_search ''status:'' (''status: '' @ s @ ''\<newline>priority: '' @ p) = Some s"
  using assms
  by (auto simp add: task_statuses_def PRIORITIES_def STATUS_TODO_def STATUS_IN_PROGRESS_def
      STATUS_DONE_def after_key_def dot_plus_def is_ws_def is_lt_def)

lemma priority_of_built:
  assumes "s \<in> set task_statuses" "p \<in> set PRIORITIES"
  shows "key_search ''priority:'' (''status: '' @ s @ ''\<newline>priority: '' @ p) = Some p"
  using assms
  by (auto simp add: task_statuses_def PRIORITIES_def STATUS_TODO_def STATUS_IN_PROGRESS_def
      STATUS_DONE_def after_key_def dot_plus_def is_ws_def is_lt_def)

lemma trim_enumerated:
  "s \<in> set task_statuses \<or> s \<in> set PRIORITIES \<Longrightarrow> trim s = s"
  by (auto simp add: task_statuses_def PRIORITIES_def STATUS_TODO_def STATUS_IN_PROGRESS_def
      STATUS_DONE_def trim_def is_ws_def)

lemma buildContent_not_empty: "buildContent todo \<noteq> []"
  by (simp add: buildContent_def)

lemma buildContent_ignores_sort: "buildContent (todo\<lparr>t_sort := k\<rparr>) = buildContent todo"
  by (simp add: buildContent_def)

lemma parseContent_sort_absent: "p_sort (parseContent content) = None"
  by (simp add: parseContent_def Let_def split: option.splits)

text \<open>
  C1 (as the code has it). For every status of todo, in-progress, done and deleted, every
  priority of low, medium and high, every sort key and every body, decoding the encoding
  gives back the same status and the same priority, and the body with the white space at
  its two ends removed; so a body is given back exactly when it neither starts nor ends
  with white space.
\<close>

theorem codec_round_trip:
  assumes "s \<in> set task_statuses" and "p \<in> set PRIORITIES"
  shows "p_status (parseContent (Some (buildContent
            \<lparr>t_title = ti, t_summary = su, t_status = Some s, t_priority = Some p,
             t_sort = k, t_content = Some b, t_tags = tg\<rparr>))) = s
       \<and> p_priority (parseContent (Some (buildContent
            \<lparr>t_title = ti, t_summary = su, t_status = Some s, t_priority = Some p,
             t_sort = k, t_content = Some b, t_tags = tg\<rparr>))) = p
       \<and> p_body (parseContent (Some (buildContent
            \<lparr>t_title = ti, t_summary = su, t_status = Some s, t_priority = Some p,
             t_sort = k, t_content = Some b, t_tags = tg\<rparr>))) = trim b"
proof -
  let ?c = "buildContent \<lparr>t_title = ti, t_summary = su, t_status = Some s,
              t_priority = Some p, t_sort = k, t_content = Some b, t_tags = tg\<rparr>"
  define fmv where "fmv = ''status: '' @ s @ ''\<newline>priority: '' @ p"
  have fm: "frontmatterMatch ?c = Some (fmv, CHR 0x0A # b)"
    unfolding fmv_def using assms by (rule frontmatter_of_built)
  have st: "key_search ''status:'' fmv = Some s"
    unfolding fmv_def using assms by (rule status_of_built)
  have pr: "key_search ''priority:'' fmv = Some p"
    unfolding fmv_def using assms by (rule priority_of_built)
  have ts: "trim s = s" and tp: "trim p = p"
    using assms trim_enumerated by blast+
  have tb: "trim (CHR 0x0A # b) = trim b"
    using is_ws_lf by (rule trim_ws_cons)
  have ne: "?c \<noteq> []" by (rule buildContent_not_empty)
  show ?thesis
    unfolding parseContent_def Let_def using ne
    by (simp add: fm st pr ts tp tb)
qed

theorem codec_round_trip_witness:
  "''done'' \<in> set task_statuses \<and> ''high'' \<in> set PRIORITIES
   \<and> p_status (parseContent (Some (buildContent
        \<lparr>t_title = None, t_summary = None, t_status = Some ''done'', t_priority = Some ''high'',
         t_sort = Some 7, t_content = Some ''buy milk'', t_tags = None\<rparr>))) = ''done''
   \<and> p_priority (parseContent (Some (buildContent
        \<lparr>t_title = None, t_summary = None, t_status = Some ''done'', t_priority = Some ''high'',
         t_sort = Some 7, t_content = Some ''buy milk'', t_tags = None\<rparr>))) = ''high''
   \<and> p_body (parseContent (Some (buildContent
        \<lparr>t_title = None, t_summary = None, t_status = Some ''done'', t_priority = Some ''high'',
         t_sort = Some 7, t_content = Some ''buy milk'', t_tags = None\<rparr>))) = ''buy milk''"
proof -
  have s: "''done'' \<in> set task_statuses"
    by (simp add: task_statuses_def STATUS_DONE_def)
  have p: "''high'' \<in> set PRIORITIES"
    by (simp add: PRIORITIES_def)
  have t: "trim ''buy milk'' = ''buy milk''"
    by (simp add: trim_def is_ws_def)
  show ?thesis
    using s p codec_round_trip [OF s p, of None None "Some 7" "''buy milk''" None]
    by (simp only: t simp_thms)
qed

text \<open>
  C1 as it is written fails: the body \<open>" x"\<close> does not start with the delimiter, and it
  comes back as \<open>"x"\<close>, because \<open>parseContent\<close> trims the body; and the sort key 7 does
  not come back, because \<open>buildContent\<close> does not write it and \<open>parseContent\<close> does not
  read it.
\<close>

theorem codec_round_trip_counterexample:
  "take 3 '' x'' \<noteq> ''---''
   \<and> p_body (parseContent (Some (buildContent
        \<lparr>t_title = None, t_summary = None, t_status = Some ''todo'', t_priority = Some ''medium'',
         t_sort = Some 7, t_content = Some '' x'', t_tags = None\<rparr>))) = ''x''
   \<and> ''x'' \<noteq> '' x''
   \<and> p_sort (parseContent (Some (buildContent
        \<lparr>t_title = None, t_summary = None, t_status = Some ''todo'', t_priority = Some ''medium'',
         t_sort = Some 7, t_content = Some '' x'', t_tags = None\<rparr>))) \<noteq> Some 7"
  by (simp add: parseContent_def buildContent_def js_or_def frontmatterMatch_def trim_def
      is_ws_def is_lt_def after_key_def dot_plus_def Let_def)

text \<open>
  C5 (as the code has it). \<open>parseContent\<close> has no failing branch: it is a total function of
  an absent or present string. For an absent input it returns status todo, priority medium
  and an empty body. For every text that is not \<open>---\<close> and a line feed, followed somewhere
  later by a line feed and \<open>---\<close> (which is all the regular expression asks of a header:
  the closing marker need not end its line), it returns status todo, priority medium and
  the whole text as body. The result has no sort key; read as \<open>parsed.sort || 0\<close> it is 0.
\<close>

theorem parseContent_defaults:
  "parseContent None =
     \<lparr>p_status = ''todo'', p_priority = ''medium'', p_sort = None, p_body = []\<rparr>
   \<and> sort_or_zero (p_sort (parseContent content)) = 0
   \<and> ((\<nexists>fm tl. txt = ''---\<newline>'' @ fm @ ''\<newline>---'' @ tl) \<longrightarrow>
        parseContent (Some txt) =
          \<lparr>p_status = ''todo'', p_priority = ''medium'', p_sort = None, p_body = txt\<rparr>)"
proof (intro conjI impI)
  show "parseContent None =
     \<lparr>p_status = ''todo'', p_priority = ''medium'', p_sort = None, p_body = []\<rparr>"
    by (simp add: parseContent_def STATUS_TODO_def)
  show "sort_or_zero (p_sort (parseContent content)) = 0"
    by (simp add: parseContent_sort_absent sort_or_zero_def)
next
  assume "\<nexists>fm tl. txt = ''---\<newline>'' @ fm @ ''\<newline>---'' @ tl"
  then have "frontmatterMatch txt = None" by (rule frontmatterMatch_none)
  then show "parseContent (Some txt) =
      \<lparr>p_status = ''todo'', p_priority = ''medium'', p_sort = None, p_body = txt\<rparr>"
    by (auto simp add: parseContent_def STATUS_TODO_def Let_def)
qed

theorem parseContent_defaults_witness:
  "(\<nexists>fm tl. ''# notes'' = ''---\<newline>'' @ fm @ ''\<newline>---'' @ tl)
   \<and> parseContent (Some ''# notes'') =
       \<lparr>p_status = ''todo'', p_priority = ''medium'', p_sort = None, p_body = ''# notes''\<rparr>"
proof -
  have h: "\<nexists>fm tl. ''# notes'' = ''---\<newline>'' @ fm @ ''\<newline>---'' @ tl"
    by simp
  show ?thesis
    using h parseContent_defaults [of None "''# notes''"] by blast
qed

text \<open>
  C5 as it is written fails: in the text below the closing marker shares its line with an
  \<open>x\<close>, so the text is not delimited by a marker pair on dedicated lines, and yet the
  header is recognised: the status is done and the body is \<open>"x"\<close>.
\<close>

theorem parseContent_defaults_counterexample:
  "\<not> spec_header_delimited ''---\<newline>status: done\<newline>---x''
   \<and> parseContent (Some ''---\<newline>status: done\<newline>---x'') =
       \<lparr>p_status = ''done'', p_priority = ''medium'', p_sort = None, p_body = ''x''\<rparr>"
  by (simp add: spec_header_delimited_def parseContent_def frontmatterMatch_def trim_def
      is_ws_def is_lt_def after_key_def dot_plus_def Let_def STATUS_TODO_def)

section \<open>Properties of the sort key\<close>

text \<open>
  C6 (as the code has it). When the drop zone has no card other than the dragged one, so
  that both neighbours are absent, the key \<open>calculateSortValue\<close> returns is half the current
  time, rounded down. Of two such calls, the second at a clock reading that is not earlier
  than the first, the second key is not smaller than the first; it is strictly greater
  once the two readings are at least two milliseconds apart.
\<close>

theorem empty_column_sort_key:
  assumes "filter is_still_card zone1 = []" and "filter is_still_card zone2 = []"
    and "now1 \<le> now2"
  shows "calculateSortValue ts now1 zone1 i1 = now1 div 2
       \<and> calculateSortValue ts now1 zone1 i1 \<le> calculateSortValue ts now2 zone2 i2
       \<and> (now1 + 2 \<le> now2 \<longrightarrow>
            calculateSortValue ts now1 zone1 i1 < calculateSortValue ts now2 zone2 i2)"
proof -
  have a: "calculateSortValue ts now1 zone1 i1 = now1 div 2"
    using assms(1) by (simp add: calculateSortValue_def)
  have b: "calculateSortValue ts now2 zone2 i2 = now2 div 2"
    using assms(2) by (simp add: calculateSortValue_def)
  show ?thesis unfolding a b using assms(3) by auto
qed

theorem empty_column_sort_key_witness:
  "filter is_still_card [CardEl ''a'' True, IndicatorEl] = []
   \<and> filter is_still_card [IndicatorEl] = []
   \<and> (1000::int) \<le> 1002
   \<and> calculateSortValue [] 1000 [CardEl ''a'' True, IndicatorEl] 0 = 500
   \<and> calculateSortValue [] 1000 [CardEl ''a'' True, IndicatorEl] 0
       < calculateSortValue [] 1002 [IndicatorEl] 0"
proof -
  have z1: "filter is_still_card [CardEl ''a'' True, IndicatorEl] = []" by simp
  have z2: "filter is_still_card [IndicatorEl] = []" by simp
  have le: "(1000::int) \<le> 1002" by simp
  show ?thesis
    using z1 z2 le empty_column_sort_key [OF z1 z2 le, of "[]" 0 0] by simp
qed

text \<open>
  C6 as it is written fails: two calls for an empty column, the second one millisecond
  after the first, return the same key 500.
\<close>

theorem empty_column_sort_key_counterexample:
  "(1000::int) < 1001
   \<and> calculateSortValue [] 1000 [] 0 = 500
   \<and> calculateSortValue [] 1001 [] 0 = 500"
  by (simp add: calculateSortValue_def)

section \<open>Properties of the bridge\<close>

text \<open>
  C8. A message whose origin is not \<open>https://chat.usable.dev\<close> leaves the whole state of
  the page as it was: the task cache, the token state, the requests sent and the messages
  posted.
\<close>

theorem origin_noninterference:
  "m_origin e \<noteq> EMBED_ORIGIN \<Longrightarrow> onMessage svc e st = st"
  by (simp add: onMessage_def)

theorem origin_noninterference_witness:
  "m_origin evil_message \<noteq> EMBED_ORIGIN
   \<and> onMessage demo_services evil_message (demo_state [demo_fragment ''a'' ''A'' ''todo''])
       = demo_state [demo_fragment ''a'' ''A'' ''todo'']"
proof -
  have h: "m_origin evil_message \<noteq> EMBED_ORIGIN"
    by (simp add: evil_message_def EMBED_ORIGIN_def)
  show ?thesis using h origin_noninterference [OF h] by simp
qed

text \<open>
  The same message from the allowed origin is dispatched: the task is deleted in the
  store, the cache is loaded again and a response is posted.
\<close>

lemma allowed_origin_dispatches:
  "outbox (onMessage demo_services (evil_message\<lparr>m_origin := EMBED_ORIGIN\<rparr>)
             (demo_state [demo_fragment ''a'' ''A'' ''todo'']))
     = [TOOL_RESPONSE ''r1'' (Success ''Task \"A\" deleted'')]
   \<and> todos (onMessage demo_services (evil_message\<lparr>m_origin := EMBED_ORIGIN\<rparr>)
             (demo_state [demo_fragment ''a'' ''A'' ''todo''])) = []"
  by code_simp

text \<open>
  C7 (as the code has it). For a tool call whose tool is none of the six, nothing is sent
  to the remote store and nothing of the state changes but the messages posted: when the
  document has the chat iframe, exactly one \<open>TOOL_RESPONSE\<close> with the request id of the
  call is posted, and its result is the error \<open>Unknown tool\<close> with the name of the tool;
  when it has not, \<open>postToEmbed\<close> posts nothing.
\<close>

theorem unknown_tool:
  assumes "pl_tool p \<notin> set tool_names"
  shows "handleToolCall svc p st =
           (if iframe_present st
            then st\<lparr>outbox := outbox st @
                     [TOOL_RESPONSE (pl_requestId p)
                        (ErrorResult (Error (''Unknown tool: '' @ pl_tool p)))]\<rparr>
            else st)"
proof -
  from assms have "run_tool svc (pl_tool p) (pl_input p) st
                     = (Inl (Error (''Unknown tool: '' @ pl_tool p)), st)"
    by (simp add: run_tool_def tool_names_def)
  then show ?thesis by (simp add: handleToolCall_def postToEmbed_def)
qed

theorem unknown_tool_witness:
  "pl_tool unknown_call \<notin> set tool_names
   \<and> handleToolCall demo_services unknown_call (demo_state []) =
       (demo_state [])\<lparr>outbox :=
          [TOOL_RESPONSE ''r7'' (ErrorResult (Error ''Unknown tool: unknown_tool''))]\<rparr>"
proof -
  have h: "pl_tool unknown_call \<notin> set tool_names"
    by (simp add: unknown_call_def tool_names_def)
  have i: "iframe_present (demo_state [])" "outbox (demo_state []) = []"
    by (simp_all add: demo_state_def)
  show ?thesis
    using h unknown_tool [OF h, of demo_services "demo_state []"]
    by (simp add: i unknown_call_def)
qed

text \<open>
  C7 as it is written fails: in a document without the chat iframe the call of an unknown
  tool posts no \<open>TOOL_RESPONSE\<close> at all.
\<close>

theorem unknown_tool_counterexample:
  "pl_tool unknown_call \<notin> set tool_names
   \<and> outbox (handleToolCall demo_services unknown_call
               ((demo_state [])\<lparr>iframe_present := False\<rparr>)) = []"
  by (simp add: unknown_call_def tool_names_def handleToolCall_def run_tool_def
      postToEmbed_def demo_state_def)

section \<open>Properties of the token lifecycle\<close>

text \<open>
  C9 (as the code has it). When the URL has an authorization code and the session storage
  has a PKCE verifier, \<open>handleCallback\<close> returns true and has removed the verifier exactly
  when the token exchange succeeds; when the exchange fails, in any way, it returns false
  and the verifier is still in the session storage.
\<close>

theorem pkce_verifier:
  assumes "url_code st = Some code" and "code \<noteq> []"
    and "stored_pkce_verifier st = Some verifier" and "verifier \<noteq> []"
  shows "(case fst (idp svc (remote st)
                      (AuthorizationCode CLIENT_ID code (REDIRECT_URI st) verifier)) of
            TokenOk tk \<Rightarrow>
              fst (handleCallback svc st)
              \<and> stored_pkce_verifier (snd (handleCallback svc st)) = None
          | _ \<Rightarrow>
              \<not> fst (handleCallback svc st)
              \<and> stored_pkce_verifier (snd (handleCallback svc st)) = Some verifier)"
  using assms
  by (auto simp add: handleCallback_def or_opt_def call_idp_def setTokens_def
      scheduleRefresh_def Let_def
      split: prod.splits token_response.splits option.splits)

theorem pkce_verifier_witness:
  "url_code ((demo_state [])\<lparr>url_code := Some ''abc'', stored_pkce_verifier := Some ''v''\<rparr>)
     = Some ''abc''
   \<and> ''abc'' \<noteq> []
   \<and> stored_pkce_verifier
       ((demo_state [])\<lparr>url_code := Some ''abc'', stored_pkce_verifier := Some ''v''\<rparr>)
     = Some ''v''
   \<and> ''v'' \<noteq> []
   \<and> fst (handleCallback granting_services
            ((demo_state [])\<lparr>url_code := Some ''abc'', stored_pkce_verifier := Some ''v''\<rparr>))
   \<and> stored_pkce_verifier (snd (handleCallback granting_services
        ((demo_state [])\<lparr>url_code := Some ''abc'', stored_pkce_verifier := Some ''v''\<rparr>)))
     = None"
proof -
  let ?st = "(demo_state [])\<lparr>url_code := Some ''abc'', stored_pkce_verifier := Some ''v''\<rparr>"
  have c: "url_code ?st = Some ''abc''" by simp
  have v: "stored_pkce_verifier ?st = Some ''v''" by simp
  have n: "''abc'' \<noteq> []" "''v'' \<noteq> []" by simp_all
  show ?thesis
    using c v n pkce_verifier [OF c n(1) v n(2), of granting_services]
    by (simp add: granting_services_def)
qed

text \<open>
  C9 as it is written fails: with a code in the URL, a verifier in the session storage
  and an identity provider that refuses the exchange, the verifier is still there when
  \<open>handleCallback\<close> has returned.
\<close>

theorem pkce_verifier_counterexample:
  "stored_pkce_verifier (snd (handleCallback demo_services
      ((demo_state [])\<lparr>url_code := Some ''abc'', stored_pkce_verifier := Some ''v''\<rparr>)))
     = Some ''v''"
  by (simp add: handleCallback_def or_opt_def call_idp_def demo_services_def)

section \<open>Properties of drag and drop\<close>

lemma api_log_loadTodos: "api_log (loadTodos svc s) = api_log s @ [getTodos (cfg s)]"
  by (simp add: loadTodos_def call_api_def toast_def Let_def
      split: prod.splits api_response.splits sum.splits)

lemma api_log_toast: "api_log (toast m k s) = api_log s"
  by (simp add: toast_def)

lemma cfg_toast: "cfg (toast m k s) = cfg s"
  by (simp add: toast_def)

text \<open>
  C3 (as the code has it). For a drop with a card being dragged: when the status of the
  drop zone is the parsed status of the card and the sort key computed for the drop
  position is the parsed sort key of the card, \<open>handleDrop\<close> sends nothing and leaves the
  whole state, the card included, as it was; in every other case it sends the update to
  the remote store. The computed key is the midpoint of the neighbours' keys and, at the
  end of a column, of the clock; it is not compared with the position the card has.
\<close>

theorem drop_noop:
  assumes "draggedCardData st = Some dragged"
  shows "(newStatus = p_status (c_parsed dragged)
          \<and> p_sort (c_parsed dragged)
              = Some (calculateSortValue (todos st) now children (drop_index children))
          \<longrightarrow> handleDrop svc now (Some (newStatus, children)) st = st)
       \<and> (\<not> (newStatus = p_status (c_parsed dragged)
              \<and> p_sort (c_parsed dragged)
                  = Some (calculateSortValue (todos st) now children (drop_index children)))
          \<longrightarrow> (\<exists>rest. api_log (handleDrop svc now (Some (newStatus, children)) st)
                  = api_log st @
                    updateTodo (cfg st) (f_id (c_todo dragged))
                      \<lparr>t_title = Some (f_title (c_todo dragged)),
                       t_summary = f_summary (c_todo dragged),
                       t_status = Some newStatus,
                       t_priority = Some (p_priority (c_parsed dragged)),
                       t_sort = Some (calculateSortValue (todos st) now children
                                        (drop_index children)),
                       t_content = Some (p_body (c_parsed dragged)),
                       t_tags = f_tags (c_todo dragged)\<rparr> # rest))"
proof (intro conjI impI)
  assume "newStatus = p_status (c_parsed dragged)
          \<and> p_sort (c_parsed dragged)
              = Some (calculateSortValue (todos st) now children (drop_index children))"
  with assms show "handleDrop svc now (Some (newStatus, children)) st = st"
    by (simp add: handleDrop_def Let_def)
next
  assume n: "\<not> (newStatus = p_status (c_parsed dragged)
              \<and> p_sort (c_parsed dragged)
                  = Some (calculateSortValue (todos st) now children (drop_index children)))"
  let ?k = "calculateSortValue (todos st) now children (drop_index children)"
  let ?req = "updateTodo (cfg st) (f_id (c_todo dragged))
                \<lparr>t_title = Some (f_title (c_todo dragged)),
                 t_summary = f_summary (c_todo dragged),
                 t_status = Some newStatus,
                 t_priority = Some (p_priority (c_parsed dragged)),
                 t_sort = Some ?k,
                 t_content = Some (p_body (c_parsed dragged)),
                 t_tags = f_tags (c_todo dragged)\<rparr>"
  obtain resp st1 where c: "call_api svc ?req st = (resp, st1)"
    by (cases "call_api svc ?req st")
  then have l: "api_log st1 = api_log st @ [?req]"
    by (auto simp add: call_api_def split: prod.splits)
  have h: "handleDrop svc now (Some (newStatus, children)) st =
            (case resp of
               ApiOk x \<Rightarrow>
                 toast ''Task moved'' ''success''
                   (st1\<lparr>draggedCardData :=
                          Some (dragged\<lparr>c_parsed :=
                            (c_parsed dragged)\<lparr>p_status := newStatus, p_sort := Some ?k\<rparr>\<rparr>)\<rparr>)
             | ApiError x \<Rightarrow> loadTodos svc (toast ''Failed to move task'' ''error'' st1))"
    using assms n c by (auto simp add: handleDrop_def Let_def)
  show "\<exists>rest. api_log (handleDrop svc now (Some (newStatus, children)) st)
                  = api_log st @ ?req # rest"
  proof (cases resp)
    case (ApiOk x)
    then have "api_log (handleDrop svc now (Some (newStatus, children)) st)
                = api_log st @ [?req]"
      using h l by (simp add: api_log_toast)
    then show ?thesis by simp
  next
    case (ApiError x)
    then have "api_log (handleDrop svc now (Some (newStatus, children)) st)
                = api_log st @ [?req, getTodos (cfg st1)]"
      using h l by (simp add: api_log_loadTodos api_log_toast cfg_toast)
    then show ?thesis by simp
  qed
qed

lemma drag_state_key:
  "calculateSortValue (todos (drag_state k)) now
      [CardEl ''a'' True, IndicatorEl, CardEl ''b'' False]
      (drop_index [CardEl ''a'' True, IndicatorEl, CardEl ''b'' False]) = 0"
  by (simp add: calculateSortValue_def drop_index_def drag_state_def demo_state_def
      getCardSort_def demo_fragment_def parseContent_sort_absent sort_or_zero_def)

theorem drop_noop_witness:
  "draggedCardData (drag_state (Some 0)) =
     Some \<lparr>c_todo = demo_fragment ''a'' ''A'' ''todo'',
           c_parsed = \<lparr>p_status = ''todo'', p_priority = ''medium'', p_sort = Some 0,
                       p_body = []\<rparr>\<rparr>
   \<and> handleDrop demo_services 5000
        (Some (''todo'', [CardEl ''a'' True, IndicatorEl, CardEl ''b'' False]))
        (drag_state (Some 0))
      = drag_state (Some 0)"
proof -
  have d: "draggedCardData (drag_state (Some 0)) =
     Some \<lparr>c_todo = demo_fragment ''a'' ''A'' ''todo'',
           c_parsed = \<lparr>p_status = ''todo'', p_priority = ''medium'', p_sort = Some 0,
                       p_body = []\<rparr>\<rparr>"
    by (simp add: drag_state_def)
  show ?thesis
    using d drop_noop [OF d, of "''todo''" 5000
                        "[CardEl ''a'' True, IndicatorEl, CardEl ''b'' False]" demo_services]
    by (simp add: drag_state_key)
qed

text \<open>
  C3 as it is written fails, at a card that \<open>renderBoard\<close> has just made and at a card that
  a drop has moved before. The todo column holds the cards of the tasks a and b. In the
  first drop the card of a, first in the column and without a sort key, is dropped before
  b, where it is: the key computed is 0, which is not the absent key, and an update is
  sent. In the second drop the card of a is last in the column, with the key 500 that a
  drop at the clock reading 1000 gave it, and is dropped at the end, where it is: the key
  computed at the clock reading 5000 is 2500, and an update is sent.
\<close>

theorem drop_noop_counterexample:
  "map q_method (api_log (handleDrop demo_services 5000
      (Some (''todo'', [CardEl ''a'' True, IndicatorEl, CardEl ''b'' False]))
      (drag_state None))) = [PATCH]
   \<and> map q_method (api_log (handleDrop demo_services 5000
      (Some (''todo'', [CardEl ''b'' False, CardEl ''a'' True, IndicatorEl]))
      (drag_state (Some 500)))) = [PATCH]"
  by (simp add: handleDrop_def Let_def drag_state_def demo_state_def calculateSortValue_def
      drop_index_def getCardSort_def parseContent_sort_absent sort_or_zero_def call_api_def
      demo_services_def store_api_def updateTodo_def request_def fragment_path_def
      API_BASE_URL_def demo_fragment_def toast_def)

section \<open>Properties of deletion\<close>

text \<open>
  C2 (what the code does at a task c). \<open>deleteTodo\<close> sends a DELETE request without a body:
  it is not an update, and no content with the status deleted is written. The delete
  button sends that request and then loads the tasks again. Run against a store that
  removes a fragment on DELETE, the tool \<open>delete_task\<close> answers with success, the tasks are
  loaded again without the task, and a \<open>get_task\<close> for the same id then answers that the
  task is not found.
\<close>

theorem delete_is_hard:
  "deleteTodo c ''c'' =
     \<lparr>q_method = DELETE, q_url = ''/api/memory-fragments/c'', q_bearer = API_TOKEN c,
      q_body = None\<rparr>
   \<and> map q_method (api_log (handleDelete demo_services (Some ''c'') True
                              (demo_state [demo_fragment ''c'' ''C'' ''todo''])))
     = [DELETE, GET]
   \<and> outbox (handleToolCall demo_services (call_with_id ''r2'' ''get_task'' ''c'')
              (handleToolCall demo_services (call_with_id ''r1'' ''delete_task'' ''c'')
                 (demo_state [demo_fragment ''c'' ''C'' ''todo''])))
     = [TOOL_RESPONSE ''r1'' (Success ''Task \"C\" deleted''),
        TOOL_RESPONSE ''r2'' (ErrorResult (Error ''Task not found: c''))]"
proof (intro conjI)
  show "deleteTodo c ''c'' =
     \<lparr>q_method = DELETE, q_url = ''/api/memory-fragments/c'', q_bearer = API_TOKEN c,
      q_body = None\<rparr>"
    by (simp add: deleteTodo_def request_def API_BASE_URL_def)
  show "map q_method (api_log (handleDelete demo_services (Some ''c'') True
                              (demo_state [demo_fragment ''c'' ''C'' ''todo''])))
     = [DELETE, GET]"
    by code_simp
  show "outbox (handleToolCall demo_services (call_with_id ''r2'' ''get_task'' ''c'')
              (handleToolCall demo_services (call_with_id ''r1'' ''delete_task'' ''c'')
                 (demo_state [demo_fragment ''c'' ''C'' ''todo''])))
     = [TOOL_RESPONSE ''r1'' (Success ''Task \"C\" deleted''),
        TOOL_RESPONSE ''r2'' (ErrorResult (Error ''Task not found: c''))]"
    by code_simp
qed

section \<open>Properties of the views\<close>

lemma push_card_keeps:
  assumes "\<And>k cs x. (k, cs) \<in> set g \<Longrightarrow> x \<in> set cs \<Longrightarrow> P x" and "P c"
    and "(k, cs) \<in> set (push_card col c g)" and "x \<in> set cs"
  shows "P x"
  using assms by (fastforce simp add: push_card_def split: if_splits)

lemma group_todos_no_deleted:
  assumes "group_todos ts g = Inr g'"
    and "\<And>k cs x. (k, cs) \<in> set g \<Longrightarrow> x \<in> set cs \<Longrightarrow> p_status (c_parsed x) \<noteq> ''deleted''"
    and "(k, cs) \<in> set g'" and "x \<in> set cs"
  shows "p_status (c_parsed x) \<noteq> ''deleted''"
  using assms
proof (induction ts arbitrary: g)
  case Nil
  then show ?case by auto
next
  case (Cons t ts)
  let ?parsed = "parseContent (f_content t)"
  let ?status = "js_or (Some (p_status ?parsed)) STATUS_TODO"
  let ?c = "\<lparr>c_todo = t, c_parsed = ?parsed\<rparr>"
  show ?case
  proof (cases "?status = ''deleted''")
    case True
    with Cons.prems(1) have "group_todos ts g = Inr g'" by (simp add: Let_def)
    then show ?thesis using Cons.prems(2-4) by (rule Cons.IH)
  next
    case False
    then have nd: "p_status (c_parsed ?c) \<noteq> ''deleted''"
      by (auto simp add: js_or_def split: if_splits)
    from False Cons.prems(1) obtain col where "group_todos ts (push_card col ?c g) = Inr g'"
      by (auto simp add: Let_def split: if_splits)
    then show ?thesis
    proof (rule Cons.IH)
      fix k cs x
      assume "(k, cs) \<in> set (push_card col ?c g)" "x \<in> set cs"
      with Cons.prems(2) nd show "p_status (c_parsed x) \<noteq> ''deleted''"
        by (rule push_card_keeps)
    qed (use Cons.prems(3,4) in auto)
  qed
qed

text \<open>The columns that \<open>renderBoard\<close> fills have no deleted task, and neither have their counts.\<close>

lemma renderBoard_excludes_deleted:
  assumes "renderBoard ts = Inr v" and "(k, cs) \<in> set (v_columns v)" and "c \<in> set cs"
  shows "p_status (c_parsed c) \<noteq> ''deleted''"
proof -
  from assms(1) obtain g where g: "group_todos ts empty_groups = Inr g"
    and v: "v_columns v = map (\<lambda>(status, cs).
                              (status, sort_key (\<lambda>c. sort_or_zero (p_sort (c_parsed c))) cs)) g"
    by (auto simp add: renderBoard_def Let_def split: sum.splits)
  from assms(2) v obtain cs0 where m: "(k, cs0) \<in> set g"
    and s: "cs = sort_key (\<lambda>c. sort_or_zero (p_sort (c_parsed c))) cs0"
    by auto
  from assms(3) s have c: "c \<in> set cs0" by simp
  show ?thesis
  proof (rule group_todos_no_deleted [OF g _ m c])
    fix k cs x
    assume "(k, cs) \<in> set empty_groups" "x \<in> set cs"
    then show "p_status (c_parsed x) \<noteq> ''deleted''"
      by (auto simp add: empty_groups_def)
  qed
qed

lemma renderBoard_counts:
  assumes "renderBoard ts = Inr v"
  shows "v_counts v = map (\<lambda>(k, cs). (k, length cs)) (v_columns v)"
    and "fst (v_taskCount v) = length ts"
  using assms by (auto simp add: renderBoard_def Let_def split: sum.splits)

text \<open>The result of \<open>list_tasks\<close> has no deleted task.\<close>

lemma list_tasks_excludes_deleted:
  assumes "run_tool svc ''list_tasks'' input st = (Inr (ListResult rows), st')"
    and "row \<in> set rows"
  shows "tr_status row \<noteq> ''deleted'' \<and> st' = st"
  using assms
  by (auto simp add: run_tool_def Let_def list_row_def split: option.splits)

text \<open>
  C4 (what the code does at one deleted task). For a cache that holds a single task whose
  parsed status is deleted, \<open>renderBoard\<close> leaves the three columns empty and sets their
  counts to 0, and sets the total to \<open>1 task\<close>: the total is the length of the cache, the
  deleted task included.
\<close>

theorem total_counts_deleted:
  "p_status (parseContent (f_content (demo_fragment ''c'' ''C'' ''deleted''))) = ''deleted''
   \<and> renderBoard [demo_fragment ''c'' ''C'' ''deleted''] =
       Inr \<lparr>v_columns = [(''todo'', []), (''in-progress'', []), (''done'', [])],
            v_counts = [(''todo'', 0), (''in-progress'', 0), (''done'', 0)],
            v_taskCount = (1, ''task'')\<rparr>"
  by code_simp

text \<open>The total in the digest of \<open>getBoardContext\<close> counts the tasks that are not deleted.\<close>

lemma getBoardContext_total:
  assumes "getBoardContext ts = Inr text"
  shows "\<exists>a b c. text ! 1 =
           Totals (length (filter (\<lambda>t. p_status (parseContent (f_content t)) \<noteq> ''deleted'') ts))
                  a b c"
proof -
  have "filter (\<lambda>t. p_status (c_parsed t) \<noteq> ''deleted'') (map with_parsed ts)
          = map with_parsed
              (filter (\<lambda>t. p_status (parseContent (f_content t)) \<noteq> ''deleted'') ts)"
    by (induction ts) (simp_all add: with_parsed_def)
  then have "length (filter (\<lambda>t. p_status (c_parsed t) \<noteq> ''deleted'') (map with_parsed ts))
          = length (filter (\<lambda>t. p_status (parseContent (f_content t)) \<noteq> ''deleted'') ts)"
    by simp
  with assms show ?thesis
    by (auto simp add: getBoardContext_def Let_def split: sum.splits)
qed

section \<open>Properties of the user info\<close>

text \<open>
  C10. \<open>getUserInfo\<close> returns null, and does not throw, when there is no access token or an
  empty one, when the token has not exactly three segments between dots, when \<open>atob\<close>
  throws on the middle segment, and when \<open>JSON.parse\<close> throws on what \<open>atob\<close> returns or
  returns null. For a token of three segments whose middle segment decodes to an object,
  the name is the name claim, or else \<open>preferred_username\<close>, or else the literal \<open>User\<close>,
  the email is the email claim or else the empty string, and sub is the sub claim, with
  "or else" taken as JavaScript's \<open>||\<close>.
\<close>

theorem getUserInfo_total:
  "(accessToken st = None \<or> accessToken st = Some []
        \<longrightarrow> getUserInfo atob json_parse st = None)
   \<and> (accessToken st = Some token \<and> length (split_on (CHR ''.'') token) \<noteq> 3
        \<longrightarrow> getUserInfo atob json_parse st = None)
   \<and> (accessToken st = Some token \<and> split_on (CHR ''.'') token = [h, m, s]
        \<and> (atob (to_base64 m) = None
            \<or> (\<exists>d. atob (to_base64 m) = Some d
                    \<and> (json_parse d = None \<or> json_parse d = Some JNull)))
        \<longrightarrow> getUserInfo atob json_parse st = None)
   \<and> (accessToken st = Some token \<and> split_on (CHR ''.'') token = [h, m, s]
        \<and> atob (to_base64 m) = Some d \<and> json_parse d = Some (JObj claims)
        \<longrightarrow> getUserInfo atob json_parse st =
              Some \<lparr>u_name =
                      (case map_of claims ''name'' of
                         Some v \<Rightarrow> if truthy (Val v) then Val v
                                   else (case map_of claims ''preferred_username'' of
                                           Some w \<Rightarrow> if truthy (Val w) then Val w
                                                     else Val (JStr ''User'')
                                         | None \<Rightarrow> Val (JStr ''User''))
                       | None \<Rightarrow> (case map_of claims ''preferred_username'' of
                                     Some w \<Rightarrow> if truthy (Val w) then Val w
                                               else Val (JStr ''User'')
                                   | None \<Rightarrow> Val (JStr ''User''))),
                    u_email =
                      (case map_of claims ''email'' of
                         Some v \<Rightarrow> if truthy (Val v) then Val v else Val (JStr '''')
                       | None \<Rightarrow> Val (JStr '''')),
                    u_sub = (case map_of claims ''sub'' of
                               Some v \<Rightarrow> Val v
                             | None \<Rightarrow> Undefined)\<rparr>)"
proof (intro conjI impI)
  assume "accessToken st = None \<or> accessToken st = Some []"
  then show "getUserInfo atob json_parse st = None"
    by (auto simp add: getUserInfo_def or_opt_def)
next
  assume "accessToken st = Some token \<and> length (split_on (CHR ''.'') token) \<noteq> 3"
  then show "getUserInfo atob json_parse st = None"
    by (auto simp add: getUserInfo_def or_opt_def Let_def)
next
  assume a: "accessToken st = Some token \<and> split_on (CHR ''.'') token = [h, m, s]
        \<and> (atob (to_base64 m) = None
            \<or> (\<exists>d. atob (to_base64 m) = Some d
                    \<and> (json_parse d = None \<or> json_parse d = Some JNull)))"
  then have "token \<noteq> []" by auto
  with a show "getUserInfo atob json_parse st = None"
    by (auto simp add: getUserInfo_def or_opt_def Let_def)
next
  assume a: "accessToken st = Some token \<and> split_on (CHR ''.'') token = [h, m, s]
        \<and> atob (to_base64 m) = Some d \<and> json_parse d = Some (JObj claims)"
  then have "token \<noteq> []" by auto
  with a show "getUserInfo atob json_parse st =
              Some \<lparr>u_name =
                      (case map_of claims ''name'' of
                         Some v \<Rightarrow> if truthy (Val v) then Val v
                                   else (case map_of claims ''preferred_username'' of
                                           Some w \<Rightarrow> if truthy (Val w) then Val w
                                                     else Val (JStr ''User'')
                                         | None \<Rightarrow> Val (JStr ''User''))
                       | None \<Rightarrow> (case map_of claims ''preferred_username'' of
                                     Some w \<Rightarrow> if truthy (Val w) then Val w
                                               else Val (JStr ''User'')
                                   | None \<Rightarrow> Val (JStr ''User''))),
                    u_email =
                      (case map_of claims ''email'' of
                         Some v \<Rightarrow> if truthy (Val v) then Val v else Val (JStr '''')
                       | None \<Rightarrow> Val (JStr '''')),
                    u_sub = (case map_of claims ''sub'' of
                               Some v \<Rightarrow> Val v
                             | None \<Rightarrow> Undefined)\<rparr>"
    by (auto simp add: getUserInfo_def or_opt_def Let_def js_or_val_def split: option.splits)
qed

theorem getUserInfo_total_witness:
  "accessToken (demo_state []) = None
   \<and> getUserInfo demo_atob demo_json_parse (demo_state []) = None
   \<and> accessToken ((demo_state [])\<lparr>accessToken := Some ''a.b''\<rparr>) = Some ''a.b''
   \<and> length (split_on (CHR ''.'') ''a.b'') \<noteq> 3
   \<and> getUserInfo demo_atob demo_json_parse ((demo_state [])\<lparr>accessToken := Some ''a.b''\<rparr>)
       = None
   \<and> accessToken ((demo_state [])\<lparr>accessToken := Some ''h.x-y.s''\<rparr>) = Some ''h.x-y.s''
   \<and> split_on (CHR ''.'') ''h.x-y.s'' = [''h'', ''x-y'', ''s'']
   \<and> demo_atob (to_base64 ''x-y'') = None
   \<and> getUserInfo demo_atob demo_json_parse ((demo_state [])\<lparr>accessToken := Some ''h.x-y.s''\<rparr>)
       = None
   \<and> accessToken ((demo_state [])\<lparr>accessToken := Some ''h.payload.s''\<rparr>)
       = Some ''h.payload.s''
   \<and> split_on (CHR ''.'') ''h.payload.s'' = [''h'', ''payload'', ''s'']
   \<and> demo_atob (to_base64 ''payload'') = Some ''{claims}''
   \<and> demo_json_parse ''{claims}''
       = Some (JObj [(''preferred_username'', JStr ''ann''), (''sub'', JStr ''42'')])
   \<and> getUserInfo demo_atob demo_json_parse
        ((demo_state [])\<lparr>accessToken := Some ''h.payload.s''\<rparr>)
       = Some \<lparr>u_name = Val (JStr ''ann''), u_email = Val (JStr ''''),
               u_sub = Val (JStr ''42'')\<rparr>"
proof -
  have a1: "accessToken (demo_state []) = None"
    by (simp add: demo_state_def)
  have a2: "accessToken ((demo_state [])\<lparr>accessToken := Some ''a.b''\<rparr>) = Some ''a.b''"
    and l2: "length (split_on (CHR ''.'') ''a.b'') \<noteq> 3"
    by simp_all
  have a3: "accessToken ((demo_state [])\<lparr>accessToken := Some ''h.x-y.s''\<rparr>) = Some ''h.x-y.s''"
    and s3: "split_on (CHR ''.'') ''h.x-y.s'' = [''h'', ''x-y'', ''s'']"
    and d3: "demo_atob (to_base64 ''x-y'') = None"
    by (simp_all add: demo_atob_def to_base64_def)
  have a4: "accessToken ((demo_state [])\<lparr>accessToken := Some ''h.payload.s''\<rparr>)
              = Some ''h.payload.s''"
    and s4: "split_on (CHR ''.'') ''h.payload.s'' = [''h'', ''payload'', ''s'']"
    and d4: "demo_atob (to_base64 ''payload'') = Some ''{claims}''"
    and j4: "demo_json_parse ''{claims}''
              = Some (JObj [(''preferred_username'', JStr ''ann''), (''sub'', JStr ''42'')])"
    by (simp_all add: demo_atob_def demo_json_parse_def to_base64_def)
  have r1: "getUserInfo demo_atob demo_json_parse (demo_state []) = None"
    using a1 getUserInfo_total [of "demo_state []" demo_atob demo_json_parse] by blast
  have r2: "getUserInfo demo_atob demo_json_parse ((demo_state [])\<lparr>accessToken := Some ''a.b''\<rparr>)
              = None"
    using a2 l2
      getUserInfo_total [of "(demo_state [])\<lparr>accessToken := Some ''a.b''\<rparr>"
                            demo_atob demo_json_parse "''a.b''"]
    by blast
  have r3: "getUserInfo demo_atob demo_json_parse
              ((demo_state [])\<lparr>accessToken := Some ''h.x-y.s''\<rparr>) = None"
    using a3 s3 d3
      getUserInfo_total [of "(demo_state [])\<lparr>accessToken := Some ''h.x-y.s''\<rparr>"
                            demo_atob demo_json_parse "''h.x-y.s''" "''h''" "''x-y''" "''s''"]
    by blast
  have r4: "getUserInfo demo_atob demo_json_parse
              ((demo_state [])\<lparr>accessToken := Some ''h.payload.s''\<rparr>)
            = Some \<lparr>u_name = Val (JStr ''ann''), u_email = Val (JStr ''''),
                    u_sub = Val (JStr ''42'')\<rparr>"
    using a4 s4 d4 j4
      getUserInfo_total [of "(demo_state [])\<lparr>accessToken := Some ''h.payload.s''\<rparr>"
                            demo_atob demo_json_parse "''h.payload.s''" "''h''" "''payload''"
                            "''s''" "''{claims}''"
                            "[(''preferred_username'', JStr ''ann''), (''sub'', JStr ''42'')]"]
    by simp
  show ?thesis
    using a1 a2 l2 a3 s3 d3 a4 s4 d4 j4 r1 r2 r3 r4 by blast
qed

end
